theory Spec2Isabelle
  imports Main
begin

section \<open>Data model of server.js\<close>

text \<open>
  The server is a set of callbacks registered on an HTTP application, a socket server
  and a messaging client. Each callback is modelled as a function from its inputs (the
  request, the clock reading, the answers of the messaging client) to the list of
  effects it performs, in program order. Where a callback changes the two global flags
  or the upload directory, it also returns the new server state.

  A call of a library function that can throw or reject returns a sum: \<open>Inl\<close> carries
  the \<open>message\<close> of the error, \<open>Inr\<close> the value.
\<close>

subsection \<open>Requests\<close>

text \<open>
  \<open>req.body\<close> and \<open>req.file\<close>. A field that the request does not carry is
  \<open>undefined\<close> in the source and \<open>None\<close> here. The upload is the part named
  \<open>media\<close> of a multipart request: its original file name and its content.

  The numeric fields \<open>delay\<close> and \<open>timestamp\<close> hold the numbers that
  \<open>express.json()\<close> parsed, doubles with an integer value; \<open>2 ^ 1024\<close> stands for
  \<open>Infinity\<close>, see \<open>double_of\<close> below.
\<close>

record request =
  numbers :: "string list option"
  message :: "string option"
  delay :: "int option"
  timestamp :: "int option"
  groupName :: "string option"
  number :: "string option"
  caption :: "string option"
  media :: "(string \<times> string) option"

definition no_fields :: request where
  "no_fields = \<lparr>numbers = None, message = None, delay = None, timestamp = None,
     groupName = None, number = None, caption = None, media = None\<rparr>"

text \<open>
  The presence checks of the source are JavaScript negations (\<open>!numbers\<close>,
  \<open>!message\<close>, \<open>!timestamp\<close>): \<open>undefined\<close>, the empty string and the number
  \<open>0\<close> are falsy, every array (the empty one too) and every object is truthy.
\<close>

definition truthy_array :: "'a list option \<Rightarrow> bool" where
  "truthy_array v = (case v of None \<Rightarrow> False | Some xs \<Rightarrow> True)"

definition truthy_string :: "string option \<Rightarrow> bool" where
  "truthy_string v = (case v of None \<Rightarrow> False | Some s \<Rightarrow> s \<noteq> [])"

definition truthy_number :: "int option \<Rightarrow> bool" where
  "truthy_number v = (case v of None \<Rightarrow> False | Some n \<Rightarrow> n \<noteq> 0)"

subsection \<open>The messaging client\<close>

record chat =
  isGroup :: bool
  chat_name :: string
  id_serialized :: string

record contact =
  isUser :: bool
  contact_name :: "string option"
  contact_number :: string

datatype payload =
  Text string
| Media string "string option"

text \<open>
  The answers of the external client. \<open>getNumberId\<close> resolves to \<open>null\<close>
  (\<open>Inr None\<close>) for a number that is not registered.
\<close>

record client =
  getContacts :: "string + contact list"
  getChats :: "string + chat list"
  getNumberId :: "string \<Rightarrow> string + string option"
  sendMessage :: "string \<Rightarrow> payload \<Rightarrow> string + unit"
  destroy :: "string + unit"

subsection \<open>Effects\<close>

datatype log_line =
  LogScanQr
| LogContactsError string
| LogReady
| LogAuthFailed
| LogClientError
| LogSending "string list"
| LogSent string
| LogFailed string string
| LogGroupError string
| LogMediaError string
| LogScheduledSent string
| LogRestarting
| LogRestartError string
| LogDisconnected string

datatype response_body =
  Error string
| Success string

text \<open>The bodies of the three functions handed to \<open>setTimeout\<close>.\<close>

datatype callback =
  SendOne string string
| SendEach "string list" string
| RestartClient

record contact_summary =
  name :: string
  summary_number :: string

datatype effect =
  ConsoleLog log_line
| SetTimeout callback int
| SendMessage string payload
| Respond nat response_body
| IoEmit string "string option"
| SocketEmitContacts "contact_summary list"
| SocketEmitError string
| ClientDestroy
| ClientInitialize

record server_state =
  clientConnected :: bool
  qrGenerated :: bool
  uploads :: "string \<rightharpoonup> string"

section \<open>Numbers and timers\<close>

text \<open>
  The arithmetic of the handlers is that of doubles: the result of \<open>index * delay\<close>
  and of \<open>timestamp - Date.now()\<close> is the exact result rounded to the nearest double,
  ties to the even significand. \<open>double_of\<close> is that rounding on integers: every
  integer below \<open>2 ^ 53\<close> in magnitude is a double; a larger one keeps its 53 leading
  bits, and what rounds to \<open>2 ^ 1024\<close> or beyond is \<open>Infinity\<close>, written
  \<open>2 ^ 1024\<close>. The product \<open>0 * Infinity\<close> is \<open>NaN\<close> in the source and \<open>0\<close>
  here; its only use is as a delay, where both are set to 1.
\<close>

fun bitlen :: "nat \<Rightarrow> nat" where
  "bitlen n = (if n = 0 then 0 else Suc (bitlen (n div 2)))"

declare bitlen.simps [simp del]

definition double_of :: "int \<Rightarrow> int" where
  "double_of x =
     (if \<bar>x\<bar> < 2 ^ 53 then x
      else
        let q = 2 ^ (bitlen (nat \<bar>x\<bar>) - 53);
            low = \<bar>x\<bar> mod q;
            base = \<bar>x\<bar> - low;
            nearest = (if 2 * low < q then base
                       else if q < 2 * low then base + q
                       else if even (base div q) then base
                       else base + q)
        in sgn x * min nearest (2 ^ 1024))"

text \<open>
  \<open>setTimeout(callback, after)\<close> of Node.js starts a timer of \<open>after\<close>
  milliseconds, except that a delay below 1, above \<open>2147483647\<close> (\<open>2 ^ 31 - 1\<close>) or
  \<open>NaN\<close> is set to 1. The effect \<open>SetTimeout\<close> records the callback and the
  milliseconds the timer really runs.
\<close>

definition timer_delay :: "int \<Rightarrow> int" where
  "timer_delay after = (if 1 \<le> after \<and> after \<le> 2147483647 then after else 1)"

definition setTimeout :: "callback \<Rightarrow> int \<Rightarrow> effect" where
  "setTimeout cb after = SetTimeout cb (timer_delay after)"

section \<open>Recipient formatting\<close>

text \<open>
  \<open>num.replace(/\D/g, "") + "@c.us"\<close>, the function mapped over \<open>numbers\<close> in
  both POST /send and POST /schedule. Without the \<open>u\<close> flag, \<open>\D\<close> matches every
  code unit that is not one of the ten ASCII digits.
\<close>

definition matchesNonDigit :: "char \<Rightarrow> bool" where
  "matchesNonDigit c = (c \<notin> set ''0123456789'')"

fun replaceNonDigits :: "string \<Rightarrow> string" where
  "replaceNonDigits [] = []"
| "replaceNonDigits (c # cs) =
     (if matchesNonDigit c then replaceNonDigits cs else c # replaceNonDigits cs)"

definition formatNumber :: "string \<Rightarrow> string" where
  "formatNumber num = replaceNonDigits num @ ''@c.us''"

section \<open>POST /send\<close>

definition send_timers :: "string list \<Rightarrow> string \<Rightarrow> int \<Rightarrow> effect list" where
  "send_timers formattedNumbers msg dly =
     map (\<lambda>(index, num). setTimeout (SendOne num msg) (double_of (int index * dly)))
       (enumerate 0 formattedNumbers)"

definition post_send :: "request \<Rightarrow> effect list" where
  "post_send req =
     (let dly = (case delay req of None \<Rightarrow> 1000 | Some d \<Rightarrow> d) in
      if \<not> truthy_array (numbers req) \<or> \<not> truthy_string (message req)
      then [Respond 400 (Error ''Missing parameters'')]
      else
        let formattedNumbers = map formatNumber (the (numbers req));
            msg = the (message req)
        in [ConsoleLog (LogSending formattedNumbers)]
           @ send_timers formattedNumbers msg dly
           @ [Respond 200 (Success ''Messages are being sent.'')])"

section \<open>POST /schedule\<close>

text \<open>\<open>now\<close> is the value of \<open>Date.now()\<close> when the handler runs.\<close>

definition post_schedule :: "int \<Rightarrow> request \<Rightarrow> effect list" where
  "post_schedule now req =
     (if \<not> truthy_array (numbers req) \<or> \<not> truthy_string (message req)
         \<or> \<not> truthy_number (timestamp req)
      then [Respond 400 (Error ''Missing parameters'')]
      else
        let dly = double_of (the (timestamp req) - now) in
        if dly \<le> 0 then [Respond 400 (Error ''Invalid timestamp'')]
        else
          let formattedNumbers = map formatNumber (the (numbers req)) in
          [setTimeout (SendEach formattedNumbers (the (message req))) dly,
           Respond 200 (Success ''Message scheduled successfully.'')])"

section \<open>Timers and the event loop\<close>

text \<open>
  What a timer callback does when it fires. Each callback calls \<open>sendMessage\<close> and
  logs the outcome once the call has settled. \<open>SendEach\<close> is the \<open>forEach\<close> over
  an async function of POST /schedule: every iteration runs up to its \<open>await\<close>, so
  all the calls are made before any outcome is logged.
\<close>

definition send_log :: "client \<Rightarrow> (string \<Rightarrow> log_line) \<Rightarrow> string \<Rightarrow> string \<Rightarrow> effect" where
  "send_log c sent num msg =
     ConsoleLog (case sendMessage c num (Text msg) of
                   Inr u \<Rightarrow> sent num
                 | Inl e \<Rightarrow> LogFailed num e)"

fun run_callback :: "client \<Rightarrow> callback \<Rightarrow> effect list" where
  "run_callback c (SendOne num msg) =
     [SendMessage num (Text msg), send_log c LogSent num msg]"
| "run_callback c (SendEach nums msg) =
     map (\<lambda>num. SendMessage num (Text msg)) nums
     @ map (\<lambda>num. send_log c LogScheduledSent num msg) nums"
| "run_callback c RestartClient =
     [ConsoleLog LogRestarting, ClientDestroy]
     @ (case destroy c of
          Inr u \<Rightarrow> [ClientInitialize]
        | Inl e \<Rightarrow> [ConsoleLog (LogRestartError e)])"

fun timer_of :: "effect \<Rightarrow> (callback \<times> int) option" where
  "timer_of (SetTimeout cb d) = Some (cb, d)"
| "timer_of e = None"

definition scheduled :: "effect list \<Rightarrow> (callback \<times> int) list" where
  "scheduled effs = List.map_filter timer_of effs"

fun is_send :: "effect \<Rightarrow> bool" where
  "is_send (SendMessage target p) = True"
| "is_send e = False"

text \<open>
  A handler runs to completion before any timer fires: \<open>setTimeout\<close> only starts
  a timer. The trace of a handler is therefore what the handler does itself, followed
  by what its timers do. The timers of one handler start at the same instant, so they
  fire in the order of the milliseconds they run, and in the order of their
  registration where these are equal.
\<close>

definition run_to_completion :: "client \<Rightarrow> effect list \<Rightarrow> effect list" where
  "run_to_completion c effs =
     filter (\<lambda>e. timer_of e = None) effs
     @ concat (map (\<lambda>t. run_callback c (fst t)) (sort_key snd (scheduled effs)))"

section \<open>Session events of the messaging client\<close>

datatype client_event =
  Qr string
| Ready
| AuthFailure
| ClientError
| Disconnected string

text \<open>
  \<open>toDataURL\<close> is \<open>qrcode.toDataURL\<close>: \<open>None\<close> when it hands an error to its
  callback, otherwise the data URL. The broadcast made by that callback is counted
  with the offer that started the encoding.
\<close>

fun on_event :: "(string \<Rightarrow> string option) \<Rightarrow> server_state \<Rightarrow> client_event
    \<Rightarrow> server_state \<times> effect list" where
  "on_event toDataURL s (Qr qr) =
     (if clientConnected s \<or> qrGenerated s then (s, [])
      else (s\<lparr>qrGenerated := True\<rparr>,
            ConsoleLog LogScanQr #
            (case toDataURL qr of
               None \<Rightarrow> []
             | Some url \<Rightarrow> [IoEmit ''qr'' (Some url)])))"
| "on_event toDataURL s Ready =
     (s\<lparr>clientConnected := True\<rparr>, [ConsoleLog LogReady, IoEmit ''ready'' None])"
| "on_event toDataURL s AuthFailure =
     (s\<lparr>clientConnected := False, qrGenerated := False\<rparr>,
      [ConsoleLog LogAuthFailed, IoEmit ''auth_failure'' None])"
| "on_event toDataURL s ClientError =
     (s\<lparr>clientConnected := False, qrGenerated := False\<rparr>,
      [ConsoleLog LogClientError,
       IoEmit ''error'' (Some ''WhatsApp client encountered an issue.'')])"
| "on_event toDataURL s (Disconnected reason) =
     (s\<lparr>clientConnected := False, qrGenerated := False\<rparr>,
      [ConsoleLog (LogDisconnected reason), setTimeout RestartClient 5000])"

fun run_events :: "(string \<Rightarrow> string option) \<Rightarrow> server_state \<Rightarrow> client_event list
    \<Rightarrow> server_state \<times> effect list" where
  "run_events toDataURL s [] = (s, [])"
| "run_events toDataURL s (ev # evs) =
     (let (s', effs) = on_event toDataURL s ev;
          (s'', effs') = run_events toDataURL s' evs
      in (s'', effs @ effs'))"

fun is_reset :: "client_event \<Rightarrow> bool" where
  "is_reset AuthFailure = True"
| "is_reset ClientError = True"
| "is_reset (Disconnected reason) = True"
| "is_reset ev = False"

fun is_broadcast :: "effect \<Rightarrow> bool" where
  "is_broadcast (IoEmit ev data) = True"
| "is_broadcast e = False"

fun is_qr_broadcast :: "effect \<Rightarrow> bool" where
  "is_qr_broadcast (IoEmit ev data) = (ev = ''qr'')"
| "is_qr_broadcast e = False"

section \<open>Socket request getContacts\<close>

text \<open>
  \<open>Array.prototype.slice(start, end)\<close>: a negative index counts from the end, both
  indices are clamped to the array, and nothing is returned when the end is not after
  the start.
\<close>

definition slice :: "'a list \<Rightarrow> int \<Rightarrow> int \<Rightarrow> 'a list" where
  "slice xs start finish =
     (let len = int (length xs);
          k = (if start < 0 then max (len + start) 0 else min start len);
          final = (if finish < 0 then max (len + finish) 0 else min finish len)
      in take (nat (final - k)) (drop (nat k) xs))"

text \<open>\<open>c.name || "Unknown"\<close>: an absent name and an empty name are both falsy.\<close>

definition summarize :: "contact \<Rightarrow> contact_summary" where
  "summarize c =
     \<lparr>name = (if truthy_string (contact_name c) then the (contact_name c) else ''Unknown''),
      summary_number = contact_number c\<rparr>"

definition on_getContacts :: "client \<Rightarrow> int \<Rightarrow> int \<Rightarrow> effect list" where
  "on_getContacts c page pageSize =
     (case getContacts c of
        Inl err \<Rightarrow>
          [ConsoleLog (LogContactsError err), SocketEmitError ''Failed to fetch contacts'']
      | Inr contacts \<Rightarrow>
          [SocketEmitContacts
             (map summarize
                (slice (filter isUser contacts) ((page - 1) * pageSize) (page * pageSize)))])"

section \<open>POST /send-group\<close>

text \<open>
  \<open>toLowerCase\<close> is the string method of the runtime, taken as a parameter.
  \<open>find\<close> returns the first chat that satisfies the test.
\<close>

definition post_send_group :: "(string \<Rightarrow> string) \<Rightarrow> client \<Rightarrow> request \<Rightarrow> effect list" where
  "post_send_group toLowerCase c req =
     (if \<not> truthy_string (groupName req) \<or> \<not> truthy_string (message req)
      then [Respond 400 (Error ''Group name and message required'')]
      else
        let gname = the (groupName req); msg = the (message req) in
        case getChats c of
          Inl err \<Rightarrow> [ConsoleLog (LogGroupError err), Respond 500 (Error err)]
        | Inr chats \<Rightarrow>
            (case find (\<lambda>ch. isGroup ch \<and> toLowerCase (chat_name ch) = toLowerCase gname)
                    chats of
               None \<Rightarrow>
                 [Respond 404
                    (Error (''Group '' @ [CHR 0x27] @ gname @ [CHR 0x27] @ '' not found''))]
             | Some found \<Rightarrow>
                 SendMessage (id_serialized found) (Text msg) #
                 (case sendMessage c (id_serialized found) (Text msg) of
                    Inr u \<Rightarrow> [Respond 200 (Success (''Message sent to '' @ gname))]
                  | Inl err \<Rightarrow> [ConsoleLog (LogGroupError err), Respond 500 (Error err)])))"

section \<open>POST /send-media\<close>





section \<open>Sample inputs\<close>

text \<open>Concrete requests and a client whose calls all succeed, for the examples below.\<close>

definition quiet_client :: client where
  "quiet_client = \<lparr>getContacts = Inr [], getChats = Inr [],
     getNumberId = (\<lambda>n. Inr None), sendMessage = (\<lambda>target p. Inr ()), destroy = Inr ()\<rparr>"

definition two_recipients :: request where
  "two_recipients = no_fields\<lparr>numbers := Some [''555-1234'', ''555-5678''],
     message := Some ''hi'', delay := Some 500\<rparr>"

definition future_request :: request where
  "future_request = no_fields\<lparr>numbers := Some [''555-1234'', ''555-5678''],
     message := Some ''hi'', timestamp := Some 5000\<rparr>"

definition digitless_request :: request where
  "digitless_request = no_fields\<lparr>numbers := Some [''abc''], message := Some ''hi'',
     timestamp := Some 5000\<rparr>"

definition sample_toDataURL :: "string \<Rightarrow> string option" where
  "sample_toDataURL qr = (if qr = [] then None else Some (''data:image/png;base64,'' @ qr))"

definition initial_state :: server_state where
  "initial_state = \<lparr>clientConnected = False, qrGenerated = False, uploads = Map.empty\<rparr>"

definition sample_toLowerCase :: "string \<Rightarrow> string" where
  "sample_toLowerCase str =
     map (\<lambda>ch. case map_of (zip ''ABCDEFGHIJKLMNOPQRSTUVWXYZ'' ''abcdefghijklmnopqrstuvwxyz'') ch of
                 None \<Rightarrow> ch
               | Some l \<Rightarrow> l) str"

definition group_client :: client where
  "group_client = quiet_client\<lparr>
     getChats := Inr [\<lparr>isGroup = False, chat_name = ''Family'', id_serialized = ''15551234567@c.us''\<rparr>,
                      \<lparr>isGroup = True, chat_name = ''Family'', id_serialized = ''120363041@g.us''\<rparr>],
     sendMessage := (\<lambda>target p. if target = ''120363041@g.us'' then Inr () else Inl ''not delivered'')\<rparr>"

definition sample_contacts :: "contact list" where
  "sample_contacts =
     [\<lparr>isUser = True, contact_name = Some ''Ann'', contact_number = ''15550001''\<rparr>,
      \<lparr>isUser = False, contact_name = Some ''Broadcast'', contact_number = ''0''\<rparr>,
      \<lparr>isUser = True, contact_name = Some ''Bob'', contact_number = ''15550002''\<rparr>,
      \<lparr>isUser = True, contact_name = None, contact_number = ''15550003''\<rparr>,
      \<lparr>isUser = True, contact_name = Some ''Dan'', contact_number = ''15550004''\<rparr>,
      \<lparr>isUser = True, contact_name = Some ''Eve'', contact_number = ''15550005''\<rparr>]"





section \<open>Properties of recipient formatting\<close>

lemma replaceNonDigits_filter:
  "replaceNonDigits s = filter (\<lambda>c. \<not> matchesNonDigit c) s"
  by (induction s) simp_all

lemma replaceNonDigits_idem: "replaceNonDigits (replaceNonDigits s) = replaceNonDigits s"
  by (simp add: replaceNonDigits_filter)

lemma replaceNonDigits_append:
  "replaceNonDigits (s @ t) = replaceNonDigits s @ replaceNonDigits t"
  by (simp add: replaceNonDigits_filter)

lemma replaceNonDigits_suffix: "replaceNonDigits ''@c.us'' = []"
  by (simp add: matchesNonDigit_def)

text \<open>
  C2. Formatting a recipient keeps exactly the ASCII digits of the raw string, in
  their order, and appends \<open>@c.us\<close>; formatting twice is the same as formatting once;
  and \<open>+1 (555) 123-4567\<close> becomes \<open>15551234567@c.us\<close>.
\<close>

theorem formatNumber_digits_idempotent:
  "formatNumber x = filter (\<lambda>c. c \<in> set ''0123456789'') x @ ''@c.us''
   \<and> formatNumber (formatNumber x) = formatNumber x
   \<and> formatNumber ''+1 (555) 123-4567'' = ''15551234567@c.us''"
proof -
  have digits: "formatNumber x = filter (\<lambda>c. c \<in> set ''0123456789'') x @ ''@c.us''"
    by (simp add: formatNumber_def replaceNonDigits_filter matchesNonDigit_def)
  have idem: "formatNumber (formatNumber x) = formatNumber x"
    by (simp only: formatNumber_def replaceNonDigits_append replaceNonDigits_idem
        replaceNonDigits_suffix append_Nil2)
  have example: "formatNumber ''+1 (555) 123-4567'' = ''15551234567@c.us''"
    by (simp add: formatNumber_def matchesNonDigit_def)
  from digits idem example show ?thesis by blast
qed

section \<open>Properties of the numbers and timers\<close>

lemma bitlen_bounds: "0 < n \<Longrightarrow> 2 ^ (bitlen n - 1) \<le> n \<and> n < 2 ^ bitlen n"
proof (induction n rule: bitlen.induct)
  case (1 n)
  show ?case
  proof (cases "n div 2 = 0")
    case True
    with "1.prems" have "n = 1" by (auto simp: div_eq_0_iff)
    then show ?thesis by (simp add: bitlen.simps [of "Suc 0"] bitlen.simps [of 0])
  next
    case False
    then have pos: "0 < n div 2" by simp
    from "1.IH" [OF _ pos] "1.prems"
    have ih: "2 ^ (bitlen (n div 2) - 1) \<le> n div 2" "n div 2 < 2 ^ bitlen (n div 2)"
      by simp_all
    have bl: "bitlen n = Suc (bitlen (n div 2))"
      using "1.prems" by (simp add: bitlen.simps [of n])
    have "0 < bitlen (n div 2)"
      using pos by (simp add: bitlen.simps [of "n div 2"])
    then have "(2::nat) ^ (bitlen n - 1) = 2 * 2 ^ (bitlen (n div 2) - 1)"
      unfolding bl by (cases "bitlen (n div 2)") simp_all
    moreover have "2 * 2 ^ (bitlen (n div 2) - 1) \<le> 2 * (n div 2)" using ih(1) by simp
    moreover have "2 * (n div 2) \<le> n" by simp
    ultimately have lo: "2 ^ (bitlen n - 1) \<le> n" by linarith
    have "n < 2 * (n div 2) + 2" by arith
    also have "\<dots> \<le> 2 * 2 ^ bitlen (n div 2)" using ih(2) by simp
    finally have "n < 2 ^ bitlen n" unfolding bl by simp
    with lo show ?thesis by simp
  qed
qed

lemma bitlen_numeral:
  "bitlen 0 = 0"
  "bitlen 1 = 1"
  "bitlen (Suc 0) = 1"
  "bitlen (numeral k) = Suc (bitlen (numeral k div 2))"
  by (simp_all add: bitlen.simps [of 0] bitlen.simps [of 1] bitlen.simps [of "Suc 0"]
      bitlen.simps [of "numeral k"])

text \<open>
  The rounding on the product \<open>3 * (2 ^ 53 - 1)\<close>, which is not a double, and on two
  ties.
\<close>

lemma double_of_examples:
  "double_of 27021597764222973 = 27021597764222972"
  "double_of 9007199254740993 = 9007199254740992"
  "double_of 9007199254740995 = 9007199254740996"
  by (simp_all add: double_of_def Let_def bitlen_numeral)

lemma double_of_small: "\<bar>x\<bar> < 2 ^ 53 \<Longrightarrow> double_of x = x"
  by (simp add: double_of_def)

lemma leading_bits_large:
  fixes m :: int
  assumes "2 ^ 53 \<le> m"
  shows "2 ^ 53 \<le> m - m mod 2 ^ (bitlen (nat m) - 53)"
proof -
  let ?L = "bitlen (nat m)"
  have mpos: "0 < nat m" using assms by simp
  have m_nat: "int (nat m) = m" using assms by simp
  from bitlen_bounds [OF mpos] have lo: "2 ^ (?L - 1) \<le> nat m" and hi: "nat m < 2 ^ ?L"
    by simp_all
  have "(2::nat) ^ 53 \<le> nat m" using assms by (simp add: le_nat_iff)
  with hi have "(2::nat) ^ 53 < 2 ^ ?L" by linarith
  then have "53 < ?L" by (rule power_less_imp_less_exp [rotated]) simp
  then obtain e where e: "?L = Suc (53 + e)" by (auto dest: less_imp_Suc_add)
  define q :: int where "q = 2 ^ Suc e"
  have q: "(2::int) ^ (?L - 53) = q" unfolding e q_def by simp
  have "int (2 ^ (53 + e)) \<le> int (nat m)"
    using lo unfolding e by (simp only: of_nat_le_iff diff_Suc_1)
  then have "2 ^ 53 * 2 ^ e \<le> m" unfolding m_nat by (simp add: power_add)
  then have ge: "2 ^ 52 * q \<le> m" unfolding q_def by simp
  have qpos: "0 < q" unfolding q_def by simp
  have "2 ^ 52 * q div q \<le> m div q" using ge qpos by (intro zdiv_mono1) simp_all
  then have "2 ^ 52 \<le> m div q" using qpos by simp
  then have "2 ^ 52 * q \<le> (m div q) * q" using qpos by simp
  moreover have "(2::int) \<le> q" unfolding q_def by simp
  then have "(2::int) ^ 53 \<le> 2 ^ 52 * q" by simp
  moreover have "m - m mod q = (m div q) * q"
    by (simp add: algebra_simps minus_mod_eq_mult_div)
  ultimately have "2 ^ 53 \<le> m - m mod q" by linarith
  then show ?thesis unfolding q .
qed

lemma double_of_minus: "double_of (- x) = - double_of x"
proof (cases "\<bar>x\<bar> < 2 ^ 53")
  case True
  then have "\<bar>- x\<bar> < 2 ^ 53" by (simp only: abs_minus_cancel)
  with True show ?thesis by (simp only: double_of_small)
next
  case False
  then show ?thesis
    unfolding double_of_def Let_def
    by (simp only: abs_minus_cancel if_False sgn_minus mult_minus_left)
qed

lemma double_of_pos_large:
  assumes "2 ^ 53 \<le> x"
  shows "2 ^ 53 \<le> double_of x"
proof -
  define q :: int where "q = 2 ^ (bitlen (nat x) - 53)"
  define base where "base = x - x mod q"
  define nearest where "nearest =
     (if 2 * (x mod q) < q then base
      else if q < 2 * (x mod q) then base + q
      else if even (base div q) then base
      else base + q)"
  have base: "2 ^ 53 \<le> base"
    unfolding base_def q_def by (rule leading_bits_large [OF assms])
  have "0 < q" unfolding q_def by simp
  then have "base \<le> nearest" unfolding nearest_def by simp
  with base have n: "2 ^ 53 \<le> nearest" by (rule order_trans)
  have "(53::nat) \<le> 1024" by simp
  then have "(2::int) ^ 53 \<le> 2 ^ 1024" by (rule power_increasing) simp
  with n have big: "2 ^ 53 \<le> min nearest (2 ^ 1024)" by (rule min.boundedI)
  have ax: "\<bar>x\<bar> = x" and sx: "sgn x = 1" and nsmall: "(x < 2 ^ 53) = False"
    using assms by simp_all
  have "double_of x = min nearest (2 ^ 1024)"
    unfolding double_of_def Let_def nearest_def base_def q_def
    by (simp only: ax sx nsmall if_False mult_1)
  with big show ?thesis by (simp only:)
qed

text \<open>Rounding keeps the sign, and it never moves a number across the timer limits.\<close>

lemma double_of_sign: "(double_of x \<le> 0) = (x \<le> 0)"
proof -
  consider "\<bar>x\<bar> < 2 ^ 53" | "2 ^ 53 \<le> x" | "2 ^ 53 \<le> - x" by linarith
  then show ?thesis
  proof cases
    case 1
    then show ?thesis by (simp only: double_of_small)
  next
    case 2
    from double_of_pos_large [OF 2] have "0 < double_of x"
      by (rule less_le_trans [rotated]) simp
    moreover from 2 have "0 < x" by (rule less_le_trans [rotated]) simp
    ultimately show ?thesis by linarith
  next
    case 3
    from double_of_pos_large [OF 3] have "0 < double_of (- x)"
      by (rule less_le_trans [rotated]) simp
    then have "double_of x < 0" by (simp only: double_of_minus neg_0_less_iff_less)
    moreover from 3 have "0 < - x" by (rule less_le_trans [rotated]) simp
    ultimately show ?thesis by linarith
  qed
qed

lemma timer_delay_double_of: "timer_delay (double_of x) = timer_delay x"
proof -
  consider "\<bar>x\<bar> < 2 ^ 53" | "2 ^ 53 \<le> x" | "x \<le> 0" by linarith
  then show ?thesis
  proof cases
    case 1
    then show ?thesis by (simp only: double_of_small)
  next
    case 2
    have lim: "(2147483647::int) < 2 ^ 53" by simp
    from double_of_pos_large [OF 2] lim have "2147483647 < double_of x"
      by (rule less_le_trans [rotated])
    moreover from 2 lim have "2147483647 < x" by (rule less_le_trans [rotated])
    ultimately show ?thesis by (simp add: timer_delay_def)
  next
    case 3
    then have "double_of x \<le> 0" by (simp only: double_of_sign)
    with 3 show ?thesis by (simp add: timer_delay_def)
  qed
qed

lemma setTimeout_double_of: "setTimeout cb (double_of x) = SetTimeout cb (timer_delay x)"
  by (simp only: setTimeout_def timer_delay_double_of)

section \<open>Properties of POST /send\<close>

lemma send_timers_eq:
  "send_timers fs m d =
     map (\<lambda>i. SetTimeout (SendOne (fs ! i) m) (timer_delay (int i * d))) [0..<length fs]"
  unfolding send_timers_def
  by (rule nth_equalityI) (simp_all add: nth_enumerate_eq setTimeout_double_of)

lemma scheduled_send_timers:
  "scheduled (send_timers fs m d) =
     map (\<lambda>i. (SendOne (fs ! i) m, timer_delay (int i * d))) [0..<length fs]"
  by (simp add: send_timers_eq scheduled_def map_filter_def comp_def)

lemma immediate_send_timers: "filter (\<lambda>e. timer_of e = None) (send_timers fs m d) = []"
  by (simp add: send_timers_eq filter_empty_conv)

lemma sends_of_callbacks:
  assumes "\<forall>t \<in> set ts. \<exists>n m. fst t = SendOne n m"
  shows "length (filter is_send (concat (map (\<lambda>t. run_callback c (fst t)) ts))) = length ts"
  using assms by (induction ts) (auto simp: send_log_def)

lemma post_send_accepted:
  assumes "numbers req = Some ns" and "message req = Some msg" and "msg \<noteq> []"
  shows "post_send req =
           ConsoleLog (LogSending (map formatNumber ns))
           # send_timers (map formatNumber ns) msg (case delay req of None \<Rightarrow> 1000 | Some d \<Rightarrow> d)
           @ [Respond 200 (Success ''Messages are being sent.'')]"
  using assms by (simp add: post_send_def truthy_array_def truthy_string_def Let_def)

text \<open>
  The timers of an accepted request, with the milliseconds each one runs: the product
  of index and spacing where the timer takes it, 1 millisecond otherwise.
\<close>

lemma scheduled_post_send:
  assumes "numbers req = Some ns" and "message req = Some msg" and "msg \<noteq> []"
  shows "scheduled (post_send req) =
           map (\<lambda>i. (SendOne (formatNumber (ns ! i)) msg,
                      timer_delay (int i * (case delay req of None \<Rightarrow> 1000 | Some d \<Rightarrow> d))))
             [0..<length ns]"
proof -
  have "scheduled (post_send req) =
          scheduled (send_timers (map formatNumber ns) msg
            (case delay req of None \<Rightarrow> 1000 | Some d \<Rightarrow> d))"
    unfolding post_send_accepted [OF assms]
    by (simp add: scheduled_def map_filter_def)
  also have "\<dots> = map (\<lambda>i. (SendOne (formatNumber (ns ! i)) msg,
                      timer_delay (int i * (case delay req of None \<Rightarrow> 1000 | Some d \<Rightarrow> d))))
             [0..<length ns]"
    by (simp add: scheduled_send_timers)
  finally show ?thesis .
qed

text \<open>
  C1, as amended. An accepted POST /send request is one whose \<open>numbers\<close> and
  \<open>message\<close> pass the presence check. With \<open>n\<close> recipients and spacing \<open>s\<close> (the
  \<open>delay\<close> field, 1000 when absent), the handler starts exactly \<open>n\<close> timers, the
  \<open>i\<close>-th (from 0) with the single send to the \<open>i\<close>-th formatted recipient as its
  callback. That timer runs \<open>i * s\<close> milliseconds when \<open>i * s\<close> lies between 1 and
  2147483647, and 1 millisecond when \<open>i * s\<close> is below 1, as it always is for the
  first recipient. The handler itself makes no send, and in the trace of the request
  the response \<open>{success: true, message: "Messages are being sent."}\<close> comes before
  everything the timers do, which contains exactly \<open>n\<close> send attempts.
\<close>

theorem post_send_spaced_attempts_after_response:
  assumes "numbers req = Some ns" and "message req = Some msg" and "msg \<noteq> []"
  shows "length (scheduled (post_send req)) = length ns
         \<and> (\<forall>i < length ns.
               fst (scheduled (post_send req) ! i) = SendOne (formatNumber (ns ! i)) msg
               \<and> (1 \<le> int i * (case delay req of None \<Rightarrow> 1000 | Some d \<Rightarrow> d)
                    \<and> int i * (case delay req of None \<Rightarrow> 1000 | Some d \<Rightarrow> d) \<le> 2147483647
                  \<longrightarrow> snd (scheduled (post_send req) ! i)
                        = int i * (case delay req of None \<Rightarrow> 1000 | Some d \<Rightarrow> d))
               \<and> (int i * (case delay req of None \<Rightarrow> 1000 | Some d \<Rightarrow> d) < 1
                  \<longrightarrow> snd (scheduled (post_send req) ! i) = 1))
         \<and> filter is_send (post_send req) = []
         \<and> run_to_completion c (post_send req) =
             [ConsoleLog (LogSending (map formatNumber ns)),
              Respond 200 (Success ''Messages are being sent.'')]
             @ concat (map (\<lambda>t. run_callback c (fst t))
                        (sort_key snd (scheduled (post_send req))))
         \<and> length (filter is_send
               (concat (map (\<lambda>t. run_callback c (fst t))
                          (sort_key snd (scheduled (post_send req)))))) = length ns"
proof -
  let ?dly = "case delay req of None \<Rightarrow> 1000 | Some d \<Rightarrow> d"
  let ?ts = "scheduled (post_send req)"
  have sched: "?ts = map (\<lambda>i. (SendOne (formatNumber (ns ! i)) msg, timer_delay (int i * ?dly)))
      [0..<length ns]"
    by (rule scheduled_post_send [OF assms])
  have len: "length ?ts = length ns"
    unfolding sched by simp
  have each: "\<forall>i < length ns.
               fst (?ts ! i) = SendOne (formatNumber (ns ! i)) msg
               \<and> (1 \<le> int i * ?dly \<and> int i * ?dly \<le> 2147483647
                  \<longrightarrow> snd (?ts ! i) = int i * ?dly)
               \<and> (int i * ?dly < 1 \<longrightarrow> snd (?ts ! i) = 1)"
    unfolding sched by (simp add: timer_delay_def)
  have nosend: "filter is_send (post_send req) = []"
    unfolding post_send_accepted [OF assms]
    by (simp add: send_timers_eq filter_empty_conv)
  have trace: "run_to_completion c (post_send req) =
             [ConsoleLog (LogSending (map formatNumber ns)),
              Respond 200 (Success ''Messages are being sent.'')]
             @ concat (map (\<lambda>t. run_callback c (fst t)) (sort_key snd ?ts))"
    unfolding run_to_completion_def
    by (simp add: post_send_accepted [OF assms] immediate_send_timers)
  have "\<forall>t \<in> set (sort_key snd ?ts). \<exists>n m. fst t = SendOne n m"
    unfolding sched by auto
  then have "length (filter is_send (concat (map (\<lambda>t. run_callback c (fst t)) (sort_key snd ?ts))))
      = length (sort_key snd ?ts)"
    by (rule sends_of_callbacks)
  also have "\<dots> = length ns"
    unfolding sched by simp
  finally have count: "length (filter is_send
      (concat (map (\<lambda>t. run_callback c (fst t)) (sort_key snd ?ts)))) = length ns" .
  from len each nosend trace count show ?thesis by blast
qed

text \<open>
  C1 as stated fails: with a spacing of 3000000000 milliseconds the timer of the
  second recipient runs 1 millisecond, not 3000000000, and the timer of the first
  recipient runs 1 millisecond, not 0.
\<close>

theorem post_send_timer_limit_counterexample:
  "scheduled (post_send (two_recipients\<lparr>delay := Some 3000000000\<rparr>)) =
     [(SendOne ''5551234@c.us'' ''hi'', 1), (SendOne ''5555678@c.us'' ''hi'', 1)]"
  by (simp add: two_recipients_def no_fields_def post_send_def truthy_array_def
      truthy_string_def send_timers_eq scheduled_def map_filter_def upt_rec timer_delay_def
      formatNumber_def matchesNonDigit_def)

theorem post_send_spaced_attempts_witness:
  "numbers two_recipients = Some [''555-1234'', ''555-5678'']
   \<and> message two_recipients = Some ''hi''
   \<and> length (scheduled (post_send two_recipients)) = 2
   \<and> scheduled (post_send two_recipients) ! 0 = (SendOne ''5551234@c.us'' ''hi'', 1)
   \<and> scheduled (post_send two_recipients) ! 1 = (SendOne ''5555678@c.us'' ''hi'', 500)
   \<and> run_to_completion quiet_client (post_send two_recipients) =
       [ConsoleLog (LogSending [''5551234@c.us'', ''5555678@c.us'']),
        Respond 200 (Success ''Messages are being sent.''),
        SendMessage ''5551234@c.us'' (Text ''hi''),
        ConsoleLog (LogSent ''5551234@c.us''),
        SendMessage ''5555678@c.us'' (Text ''hi''),
        ConsoleLog (LogSent ''5555678@c.us'')]"
proof -
  let ?ts = "scheduled (post_send two_recipients)"
  have n: "numbers two_recipients = Some [''555-1234'', ''555-5678'']"
    by (simp add: two_recipients_def no_fields_def)
  have m: "message two_recipients = Some ''hi''"
    by (simp add: two_recipients_def no_fields_def)
  have d: "delay two_recipients = Some 500"
    by (simp add: two_recipients_def no_fields_def)
  have ne: "''hi'' \<noteq> []" by simp
  have f: "formatNumber ''555-1234'' = ''5551234@c.us''" "formatNumber ''555-5678'' = ''5555678@c.us''"
    by (simp_all add: formatNumber_def matchesNonDigit_def)
  note t = post_send_spaced_attempts_after_response [OF n m ne, of quiet_client]
  from t have len: "length ?ts = 2" by simp
  from t have each: "\<forall>i < 2.
      fst (?ts ! i) = SendOne (formatNumber ([''555-1234'', ''555-5678''] ! i)) ''hi''
      \<and> (1 \<le> int i * 500 \<and> int i * 500 \<le> 2147483647 \<longrightarrow> snd (?ts ! i) = int i * 500)
      \<and> (int i * 500 < 1 \<longrightarrow> snd (?ts ! i) = 1)"
    by (simp add: d)
  from each have "fst (?ts ! 0) = SendOne ''5551234@c.us'' ''hi'' \<and> snd (?ts ! 0) = 1"
    by (simp add: f)
  then have t0: "?ts ! 0 = (SendOne ''5551234@c.us'' ''hi'', 1)"
    by (simp add: prod_eq_iff)
  from each have "fst (?ts ! 1) = SendOne ''5555678@c.us'' ''hi'' \<and> snd (?ts ! 1) = 500"
    by (simp add: f)
  then have t1: "?ts ! 1 = (SendOne ''5555678@c.us'' ''hi'', 500)"
    by (simp add: prod_eq_iff)
  from len t0 t1 have s: "?ts = [(SendOne ''5551234@c.us'' ''hi'', 1), (SendOne ''5555678@c.us'' ''hi'', 500)]"
    by (intro nth_equalityI) (auto simp: less_Suc_eq numeral_2_eq_2)
  have r: "run_to_completion quiet_client (post_send two_recipients) =
       [ConsoleLog (LogSending [''5551234@c.us'', ''5555678@c.us'']),
        Respond 200 (Success ''Messages are being sent.''),
        SendMessage ''5551234@c.us'' (Text ''hi''),
        ConsoleLog (LogSent ''5551234@c.us''),
        SendMessage ''5555678@c.us'' (Text ''hi''),
        ConsoleLog (LogSent ''5555678@c.us'')]"
    using t unfolding s by (simp add: f send_log_def quiet_client_def)
  from n m len t0 t1 r show ?thesis by blast
qed

text \<open>
  Above the limit of the timer an accepted request still starts its timers, and they
  run 1 millisecond.
\<close>

lemma post_send_beyond_timer_limit:
  assumes "numbers req = Some ns" and "message req = Some msg" and "msg \<noteq> []"
    and "i < length ns"
    and "2147483647 < int i * (case delay req of None \<Rightarrow> 1000 | Some d \<Rightarrow> d)"
  shows "snd (scheduled (post_send req) ! i) = 1"
  using assms(4,5) unfolding scheduled_post_send [OF assms(1-3)]
  by (simp add: timer_delay_def)

text \<open>
  C10. An empty \<open>numbers\<close> array is truthy, so with a non-empty message the request
  passes the presence check: the answer is 200 with
  \<open>{success: true, message: "Messages are being sent."}\<close>, no timer is registered
  and no send attempt is ever made.
\<close>
theorem post_send_empty_numbers_accepted:
  assumes "numbers req = Some []" and "message req = Some msg" and "msg \<noteq> []"
  shows "post_send req =
           [ConsoleLog (LogSending []), Respond 200 (Success ''Messages are being sent.'')]
         \<and> scheduled (post_send req) = []
         \<and> filter is_send (run_to_completion c (post_send req)) = []"
proof -
  have eff: "post_send req =
      [ConsoleLog (LogSending []), Respond 200 (Success ''Messages are being sent.'')]"
    using assms
    by (simp add: post_send_def truthy_array_def truthy_string_def Let_def send_timers_def)
  have sched: "scheduled (post_send req) = []"
    unfolding eff by (simp add: scheduled_def map_filter_def)
  have "filter is_send (run_to_completion c (post_send req)) = []"
    unfolding run_to_completion_def sched unfolding eff by simp
  with eff sched show ?thesis by blast
qed

theorem post_send_empty_numbers_witness:
  "numbers (no_fields\<lparr>numbers := Some [], message := Some ''hi''\<rparr>) = Some []
   \<and> message (no_fields\<lparr>numbers := Some [], message := Some ''hi''\<rparr>) = Some ''hi''
   \<and> post_send (no_fields\<lparr>numbers := Some [], message := Some ''hi''\<rparr>) =
       [ConsoleLog (LogSending []), Respond 200 (Success ''Messages are being sent.'')]
   \<and> scheduled (post_send (no_fields\<lparr>numbers := Some [], message := Some ''hi''\<rparr>)) = []"
proof -
  let ?r = "no_fields\<lparr>numbers := Some [], message := Some ''hi''\<rparr>"
  have n: "numbers ?r = Some []" by simp
  have m: "message ?r = Some ''hi''" by simp
  have ne: "''hi'' \<noteq> []" by simp
  from post_send_empty_numbers_accepted [OF n m ne, of quiet_client] n m
  show ?thesis by blast
qed

section \<open>Properties of POST /schedule\<close>

lemma post_schedule_present:
  assumes "numbers req = Some ns" and "message req = Some msg" and "msg \<noteq> []"
    and "timestamp req = Some ts" and "ts \<noteq> 0"
  shows "post_schedule now req =
          (if ts \<le> now then [Respond 400 (Error ''Invalid timestamp'')]
           else [SetTimeout (SendEach (map formatNumber ns) msg) (timer_delay (ts - now)),
                 Respond 200 (Success ''Message scheduled successfully.'')])"
proof -
  have "(double_of (ts - now) \<le> 0) = (ts \<le> now)"
    by (simp add: double_of_sign)
  with assms show ?thesis
    by (simp add: post_schedule_def truthy_array_def truthy_string_def truthy_number_def
        Let_def setTimeout_double_of)
qed

lemma post_schedule_falsy_timestamp:
  assumes "timestamp req = Some 0"
  shows "post_schedule now req = [Respond 400 (Error ''Missing parameters'')]"
  using assms by (simp add: post_schedule_def truthy_number_def)

lemma sends_of_SendEach:
  "filter is_send (run_callback c (SendEach nums msg)) = map (\<lambda>num. SendMessage num (Text msg)) nums"
  by (simp add: send_log_def filter_empty_conv o_def)

text \<open>
  C4, as amended. Take a POST /schedule request with recipients, a non-empty message
  and a timestamp. The timestamp \<open>0\<close> counts as missing: the answer is 400 with
  \<open>Missing parameters\<close>. For any other timestamp the handler answers 400 with
  \<open>Invalid timestamp\<close> exactly when the timestamp is at or before the current
  instant. In both cases no timer is started. Otherwise the request is accepted with
  200 and exactly one timer is started, whose callback makes the send to every
  formatted recipient, in order, when it fires; that timer runs \<open>timestamp - now\<close>
  milliseconds when this is at most 2147483647.
\<close>

theorem post_schedule_rejects_past_else_single_timer:
  assumes "numbers req = Some ns" and "message req = Some msg" and "msg \<noteq> []"
    and "timestamp req = Some ts"
  shows "(ts = 0 \<longrightarrow> post_schedule now req = [Respond 400 (Error ''Missing parameters'')])
         \<and> (ts \<noteq> 0 \<longrightarrow>
              (post_schedule now req = [Respond 400 (Error ''Invalid timestamp'')]) = (ts \<le> now)
              \<and> (Respond 400 (Error ''Invalid timestamp'') \<in> set (post_schedule now req))
                  = (ts \<le> now))
         \<and> (ts \<le> now \<longrightarrow> scheduled (post_schedule now req) = [])
         \<and> (ts \<noteq> 0 \<and> now < ts \<longrightarrow>
              Respond 200 (Success ''Message scheduled successfully.'')
                \<in> set (post_schedule now req)
              \<and> map fst (scheduled (post_schedule now req)) =
                  [SendEach (map formatNumber ns) msg]
              \<and> filter is_send (run_to_completion c (post_schedule now req)) =
                  map (\<lambda>num. SendMessage (formatNumber num) (Text msg)) ns)
         \<and> (ts \<noteq> 0 \<and> now < ts \<and> ts - now \<le> 2147483647 \<longrightarrow>
              post_schedule now req =
                [SetTimeout (SendEach (map formatNumber ns) msg) (ts - now),
                 Respond 200 (Success ''Message scheduled successfully.'')])"
proof -
  have zero: "ts = 0 \<longrightarrow> post_schedule now req = [Respond 400 (Error ''Missing parameters'')]"
    using assms(4) by (simp add: post_schedule_falsy_timestamp)
  have rest: "ts \<noteq> 0 \<longrightarrow>
              ((post_schedule now req = [Respond 400 (Error ''Invalid timestamp'')]) = (ts \<le> now)
               \<and> (Respond 400 (Error ''Invalid timestamp'') \<in> set (post_schedule now req))
                   = (ts \<le> now))
              \<and> (ts \<le> now \<longrightarrow> scheduled (post_schedule now req) = [])
              \<and> (now < ts \<longrightarrow>
                   Respond 200 (Success ''Message scheduled successfully.'')
                     \<in> set (post_schedule now req)
                   \<and> map fst (scheduled (post_schedule now req)) =
                       [SendEach (map formatNumber ns) msg]
                   \<and> filter is_send (run_to_completion c (post_schedule now req)) =
                       map (\<lambda>num. SendMessage (formatNumber num) (Text msg)) ns)
              \<and> (now < ts \<and> ts - now \<le> 2147483647 \<longrightarrow>
                   post_schedule now req =
                     [SetTimeout (SendEach (map formatNumber ns) msg) (ts - now),
                      Respond 200 (Success ''Message scheduled successfully.'')])"
  proof
    assume nz: "ts \<noteq> 0"
    note eff = post_schedule_present [OF assms nz, of now]
    have a: "(post_schedule now req = [Respond 400 (Error ''Invalid timestamp'')]) = (ts \<le> now)"
      unfolding eff by simp
    have b: "(Respond 400 (Error ''Invalid timestamp'') \<in> set (post_schedule now req))
        = (ts \<le> now)"
      unfolding eff by simp
    have c: "ts \<le> now \<longrightarrow> scheduled (post_schedule now req) = []"
      unfolding eff by (simp add: scheduled_def map_filter_def)
    have d: "now < ts \<longrightarrow>
               Respond 200 (Success ''Message scheduled successfully.'')
                 \<in> set (post_schedule now req)
               \<and> map fst (scheduled (post_schedule now req)) =
                   [SendEach (map formatNumber ns) msg]
               \<and> filter is_send (run_to_completion c (post_schedule now req)) =
                   map (\<lambda>num. SendMessage (formatNumber num) (Text msg)) ns"
      unfolding eff run_to_completion_def
      by (simp add: scheduled_def map_filter_def sends_of_SendEach o_def
          del: run_callback.simps)
    have e: "now < ts \<and> ts - now \<le> 2147483647 \<longrightarrow>
               post_schedule now req =
                 [SetTimeout (SendEach (map formatNumber ns) msg) (ts - now),
                  Respond 200 (Success ''Message scheduled successfully.'')]"
      unfolding eff by (simp add: timer_delay_def)
    from a b c d e
    show "((post_schedule now req = [Respond 400 (Error ''Invalid timestamp'')]) = (ts \<le> now)
               \<and> (Respond 400 (Error ''Invalid timestamp'') \<in> set (post_schedule now req))
                   = (ts \<le> now))
              \<and> (ts \<le> now \<longrightarrow> scheduled (post_schedule now req) = [])
              \<and> (now < ts \<longrightarrow>
                   Respond 200 (Success ''Message scheduled successfully.'')
                     \<in> set (post_schedule now req)
                   \<and> map fst (scheduled (post_schedule now req)) =
                       [SendEach (map formatNumber ns) msg]
                   \<and> filter is_send (run_to_completion c (post_schedule now req)) =
                       map (\<lambda>num. SendMessage (formatNumber num) (Text msg)) ns)
              \<and> (now < ts \<and> ts - now \<le> 2147483647 \<longrightarrow>
                   post_schedule now req =
                     [SetTimeout (SendEach (map formatNumber ns) msg) (ts - now),
                      Respond 200 (Success ''Message scheduled successfully.'')])"
      by blast
  qed
  have none: "ts \<le> now \<longrightarrow> scheduled (post_schedule now req) = []"
  proof (cases "ts = 0")
    case True
    with zero show ?thesis by (simp add: scheduled_def map_filter_def)
  next
    case False
    with rest show ?thesis by blast
  qed
  from zero rest none show ?thesis by blast
qed

text \<open>
  C4 as stated fails twice. The supplied timestamp \<open>0\<close>, which is before the current
  instant, is answered with \<open>Missing parameters\<close>, not with \<open>Invalid timestamp\<close>.
  And a timestamp 30 days ahead is accepted, but its timer runs 1 millisecond, not
  2592000000.
\<close>

theorem post_schedule_zero_and_far_future_counterexample:
  "post_schedule 1000 (future_request\<lparr>timestamp := Some 0\<rparr>) =
     [Respond 400 (Error ''Missing parameters'')]
   \<and> post_schedule 1000 (future_request\<lparr>timestamp := Some 2592001000\<rparr>) =
     [SetTimeout (SendEach [''5551234@c.us'', ''5555678@c.us''] ''hi'') 1,
      Respond 200 (Success ''Message scheduled successfully.'')]"
  by (simp add: future_request_def no_fields_def post_schedule_def truthy_array_def
      truthy_string_def truthy_number_def double_of_def setTimeout_def timer_delay_def
      formatNumber_def matchesNonDigit_def)

theorem post_schedule_rejects_past_witness:
  "numbers future_request = Some [''555-1234'', ''555-5678'']
   \<and> message future_request = Some ''hi''
   \<and> timestamp future_request = Some 5000
   \<and> post_schedule 5000 future_request = [Respond 400 (Error ''Invalid timestamp'')]
   \<and> scheduled (post_schedule 5000 future_request) = []
   \<and> post_schedule 1000 future_request =
       [SetTimeout (SendEach [''5551234@c.us'', ''5555678@c.us''] ''hi'') 4000,
        Respond 200 (Success ''Message scheduled successfully.'')]
   \<and> filter is_send (run_to_completion quiet_client (post_schedule 1000 future_request)) =
       [SendMessage ''5551234@c.us'' (Text ''hi''), SendMessage ''5555678@c.us'' (Text ''hi'')]
   \<and> post_schedule 1000 (future_request\<lparr>timestamp := Some 0\<rparr>) =
       [Respond 400 (Error ''Missing parameters'')]"
proof -
  let ?zero = "future_request\<lparr>timestamp := Some 0\<rparr>"
  have n: "numbers future_request = Some [''555-1234'', ''555-5678'']"
    "numbers ?zero = Some [''555-1234'', ''555-5678'']"
    by (simp_all add: future_request_def no_fields_def)
  have m: "message future_request = Some ''hi''" "message ?zero = Some ''hi''"
    by (simp_all add: future_request_def no_fields_def)
  have t: "timestamp future_request = Some 5000" "timestamp ?zero = Some 0"
    by (simp_all add: future_request_def no_fields_def)
  have ne: "''hi'' \<noteq> []" by simp
  have f: "formatNumber ''555-1234'' = ''5551234@c.us''" "formatNumber ''555-5678'' = ''5555678@c.us''"
    by (simp_all add: formatNumber_def matchesNonDigit_def)
  note past = post_schedule_rejects_past_else_single_timer
    [OF n(1) m(1) ne t(1), of 5000 quiet_client]
  note future = post_schedule_rejects_past_else_single_timer
    [OF n(1) m(1) ne t(1), of 1000 quiet_client]
  note zero = post_schedule_rejects_past_else_single_timer
    [OF n(2) m(2) ne t(2), of 1000 quiet_client]
  have p1: "post_schedule 5000 future_request = [Respond 400 (Error ''Invalid timestamp'')]"
    using past by simp
  have p2: "scheduled (post_schedule 5000 future_request) = []"
    using past by (simp add: scheduled_def map_filter_def)
  have f1: "post_schedule 1000 future_request =
       [SetTimeout (SendEach [''5551234@c.us'', ''5555678@c.us''] ''hi'') 4000,
        Respond 200 (Success ''Message scheduled successfully.'')]"
    using future by (simp add: f)
  have f2: "filter is_send (run_to_completion quiet_client (post_schedule 1000 future_request)) =
       [SendMessage ''5551234@c.us'' (Text ''hi''), SendMessage ''5555678@c.us'' (Text ''hi'')]"
    using future
    by (simp add: f run_to_completion_def scheduled_def map_filter_def send_log_def)
  have z: "post_schedule 1000 ?zero = [Respond 400 (Error ''Missing parameters'')]"
    using zero by simp
  from n(1) m(1) t(1) p1 p2 f1 f2 z show ?thesis by blast
qed

text \<open>
  Beyond the limit of the timer: an accepted request whose timestamp is more than
  2147483647 milliseconds ahead starts its timer all the same, and it runs 1
  millisecond.
\<close>

lemma post_schedule_beyond_timer_limit:
  assumes "numbers req = Some ns" and "message req = Some msg" and "msg \<noteq> []"
    and "timestamp req = Some ts" and "ts \<noteq> 0" and "2147483647 < ts - now"
  shows "post_schedule now req =
           [SetTimeout (SendEach (map formatNumber ns) msg) 1,
            Respond 200 (Success ''Message scheduled successfully.'')]"
  using assms(6) unfolding post_schedule_present [OF assms(1-5), of now]
  by (simp add: timer_delay_def)

section \<open>Recipients without digits\<close>

lemma formatNumber_no_digit:
  assumes "\<forall>ch \<in> set x. ch \<notin> set ''0123456789''"
  shows "formatNumber x = ''@c.us''"
proof -
  have "filter (\<lambda>c. \<not> matchesNonDigit c) x = []"
    using assms by (auto simp: filter_empty_conv matchesNonDigit_def)
  then show ?thesis by (simp add: formatNumber_def replaceNonDigits_filter)
qed

text \<open>
  C3, as amended. A recipient without any digit does not make a request fail: its
  formatted address is \<open>@c.us\<close>, with an empty local part, and neither handler looks
  at it. POST /send with recipients and a non-empty message answers 200 and starts
  one timer for every recipient, in order, each sending to its formatted recipient, so
  the one of the digitless recipient sends to \<open>@c.us\<close>. POST /schedule with
  recipients, a non-empty message and a non-zero timestamp after the current instant
  answers 200 and starts the one timer that sends to every formatted recipient,
  \<open>@c.us\<close> among them; with a non-zero timestamp at or before the current instant
  it answers 400 with \<open>Invalid timestamp\<close> and starts no timer, as for any other
  recipients.
\<close>

theorem digitless_recipient_accepted_and_scheduled:
  assumes "numbers req = Some ns" and "message req = Some msg" and "msg \<noteq> []"
    and "x \<in> set ns" and "\<forall>ch \<in> set x. ch \<notin> set ''0123456789''"
  shows "formatNumber x = ''@c.us''
         \<and> Respond 200 (Success ''Messages are being sent.'') \<in> set (post_send req)
         \<and> map fst (scheduled (post_send req)) = map (\<lambda>num. SendOne (formatNumber num) msg) ns
         \<and> (\<exists>i < length ns. ns ! i = x
               \<and> fst (scheduled (post_send req) ! i) = SendOne ''@c.us'' msg)
         \<and> (timestamp req = Some ts \<and> ts \<noteq> 0 \<and> now < ts \<longrightarrow>
               Respond 200 (Success ''Message scheduled successfully.'')
                 \<in> set (post_schedule now req)
               \<and> map fst (scheduled (post_schedule now req)) =
                   [SendEach (map formatNumber ns) msg]
               \<and> ''@c.us'' \<in> set (map formatNumber ns))
         \<and> (timestamp req = Some ts \<and> ts \<noteq> 0 \<and> ts \<le> now \<longrightarrow>
               post_schedule now req = [Respond 400 (Error ''Invalid timestamp'')])"
proof -
  let ?dly = "case delay req of None \<Rightarrow> 1000 | Some d \<Rightarrow> d"
  have fx: "formatNumber x = ''@c.us''"
    by (rule formatNumber_no_digit) (rule assms(5))
  note eff = post_send_accepted [OF assms(1-3)]
  note sched = scheduled_post_send [OF assms(1-3)]
  have ok: "Respond 200 (Success ''Messages are being sent.'') \<in> set (post_send req)"
    unfolding eff by simp
  have all: "map fst (scheduled (post_send req)) = map (\<lambda>num. SendOne (formatNumber num) msg) ns"
    unfolding sched by (rule nth_equalityI) simp_all
  from assms(4) obtain i where i: "i < length ns" "ns ! i = x"
    by (auto simp: in_set_conv_nth)
  then have "fst (scheduled (post_send req) ! i) = SendOne ''@c.us'' msg"
    unfolding sched by (simp add: fx)
  with i have timer: "\<exists>i < length ns. ns ! i = x
      \<and> fst (scheduled (post_send req) ! i) = SendOne ''@c.us'' msg"
    by blast
  have mem: "''@c.us'' \<in> set (map formatNumber ns)"
    using assms(4) fx by force
  have accepted: "timestamp req = Some ts \<and> ts \<noteq> 0 \<and> now < ts \<longrightarrow>
               Respond 200 (Success ''Message scheduled successfully.'')
                 \<in> set (post_schedule now req)
               \<and> map fst (scheduled (post_schedule now req)) =
                   [SendEach (map formatNumber ns) msg]
               \<and> ''@c.us'' \<in> set (map formatNumber ns)"
    using post_schedule_present [OF assms(1-3), of ts now] mem
    by (simp add: scheduled_def map_filter_def)
  have rejected: "timestamp req = Some ts \<and> ts \<noteq> 0 \<and> ts \<le> now \<longrightarrow>
               post_schedule now req = [Respond 400 (Error ''Invalid timestamp'')]"
    using post_schedule_present [OF assms(1-3), of ts now] by simp
  from fx ok all timer accepted rejected show ?thesis by blast
qed

text \<open>
  C3 as stated fails: the request with the single recipient \<open>abc\<close> is accepted by
  both handlers, and each starts a timer that sends to \<open>@c.us\<close>.
\<close>

theorem digitless_recipient_counterexample:
  "formatNumber ''abc'' = ''@c.us''
   \<and> post_send digitless_request =
       [ConsoleLog (LogSending [''@c.us'']),
        SetTimeout (SendOne ''@c.us'' ''hi'') 1,
        Respond 200 (Success ''Messages are being sent.'')]
   \<and> post_schedule 1000 digitless_request =
       [SetTimeout (SendEach [''@c.us''] ''hi'') 4000,
        Respond 200 (Success ''Message scheduled successfully.'')]"
  by (simp add: digitless_request_def no_fields_def post_send_def post_schedule_def
      truthy_array_def truthy_string_def truthy_number_def send_timers_eq upt_rec
      double_of_def setTimeout_def timer_delay_def formatNumber_def matchesNonDigit_def)

theorem digitless_recipient_witness:
  "numbers digitless_request = Some [''abc'']
   \<and> message digitless_request = Some ''hi''
   \<and> ''abc'' \<in> set [''abc'']
   \<and> Respond 200 (Success ''Messages are being sent.'') \<in> set (post_send digitless_request)
   \<and> map fst (scheduled (post_send digitless_request)) = [SendOne ''@c.us'' ''hi'']
   \<and> map fst (scheduled (post_schedule 1000 digitless_request)) = [SendEach [''@c.us''] ''hi'']
   \<and> Respond 200 (Success ''Message scheduled successfully.'')
        \<in> set (post_schedule 1000 digitless_request)
   \<and> post_schedule 5000 digitless_request = [Respond 400 (Error ''Invalid timestamp'')]"
proof -
  have n: "numbers digitless_request = Some [''abc'']"
    by (simp add: digitless_request_def no_fields_def)
  have m: "message digitless_request = Some ''hi''"
    by (simp add: digitless_request_def no_fields_def)
  have t: "timestamp digitless_request = Some 5000"
    by (simp add: digitless_request_def no_fields_def)
  have ne: "''hi'' \<noteq> []" by simp
  have x: "''abc'' \<in> set [''abc'']" by simp
  have nd: "\<forall>ch \<in> set ''abc''. ch \<notin> set ''0123456789''" by simp
  note future = digitless_recipient_accepted_and_scheduled [OF n m ne x nd, of 5000 1000]
  note past = digitless_recipient_accepted_and_scheduled [OF n m ne x nd, of 5000 5000]
  have f: "formatNumber ''abc'' = ''@c.us''" using future by simp
  have ok: "Respond 200 (Success ''Messages are being sent.'') \<in> set (post_send digitless_request)"
    using future by simp
  have timers: "map fst (scheduled (post_send digitless_request)) = [SendOne ''@c.us'' ''hi'']"
    using future by (simp add: f)
  have sched: "map fst (scheduled (post_schedule 1000 digitless_request)) = [SendEach [''@c.us''] ''hi'']"
    using future t by (simp add: f)
  have ok2: "Respond 200 (Success ''Message scheduled successfully.'')
        \<in> set (post_schedule 1000 digitless_request)"
    using future t by simp
  have rej: "post_schedule 5000 digitless_request = [Respond 400 (Error ''Invalid timestamp'')]"
    using past t by simp
  from n m x ok timers sched ok2 rej show ?thesis by blast
qed

section \<open>Properties of the session events\<close>

lemma run_events_Cons:
  "snd (run_events enc s (ev # evs)) =
     snd (on_event enc s ev) @ snd (run_events enc (fst (on_event enc s ev)) evs)"
  by (simp add: case_prod_unfold Let_def)

lemma run_events_after_issue:
  assumes "qrGenerated s" and "\<forall>ev \<in> set evs. \<not> is_reset ev"
  shows "filter is_qr_broadcast (snd (run_events enc s evs)) = []"
  using assms
proof (induction evs arbitrary: s)
  case Nil
  then show ?case by simp
next
  case (Cons ev evs)
  then show ?case
    by (cases ev) (simp_all add: run_events_Cons del: run_events.simps)
qed

lemma run_events_at_most_one:
  assumes "\<forall>ev \<in> set evs. \<not> is_reset ev"
  shows "length (filter is_qr_broadcast (snd (run_events enc s evs))) \<le> 1"
  using assms
proof (induction evs arbitrary: s)
  case Nil
  then show ?case by simp
next
  case (Cons ev evs)
  show ?case
  proof (cases ev)
    case (Qr q)
    show ?thesis
    proof (cases "clientConnected s \<or> qrGenerated s")
      case True
      with Cons Qr show ?thesis by (simp add: run_events_Cons del: run_events.simps)
    next
      case False
      have "filter is_qr_broadcast (snd (run_events enc (s\<lparr>qrGenerated := True\<rparr>) evs)) = []"
        using Cons.prems by (intro run_events_after_issue) simp_all
      with False Qr show ?thesis
        by (simp add: run_events_Cons del: run_events.simps split: option.split)
    qed
  next
    case Ready
    with Cons show ?thesis by (simp add: run_events_Cons del: run_events.simps)
  next
    case AuthFailure
    with Cons.prems show ?thesis by simp
  next
    case ClientError
    with Cons.prems show ?thesis by simp
  next
    case (Disconnected r)
    with Cons.prems show ?thesis by simp
  qed
qed

text \<open>
  C5, as amended. A QR offer is ignored (same state, no effect at all) whenever
  \<open>clientConnected\<close> or \<open>qrGenerated\<close> is set. Otherwise it sets \<open>qrGenerated\<close>
  and broadcasts the encoded image once if the encoding succeeds, and nothing if the
  encoding fails. Each of the events \<open>auth_failure\<close>, \<open>error\<close> and \<open>disconnected\<close>
  clears both flags. Over any run of events without such a reset, from any state, at
  most one \<open>qr\<close> broadcast is made.
\<close>
theorem qr_offer_guard_and_resets:
  "(clientConnected s \<or> qrGenerated s \<longrightarrow> on_event enc s (Qr q) = (s, []))
   \<and> (\<not> clientConnected s \<and> \<not> qrGenerated s \<longrightarrow>
         fst (on_event enc s (Qr q)) = s\<lparr>qrGenerated := True\<rparr>
         \<and> filter is_broadcast (snd (on_event enc s (Qr q))) =
             (case enc q of None \<Rightarrow> [] | Some url \<Rightarrow> [IoEmit ''qr'' (Some url)]))
   \<and> (is_reset ev \<longrightarrow>
         fst (on_event enc s ev) = s\<lparr>clientConnected := False, qrGenerated := False\<rparr>)
   \<and> ((\<forall>e \<in> set evs. \<not> is_reset e) \<longrightarrow>
         length (filter is_qr_broadcast (snd (run_events enc s evs))) \<le> 1)"
proof -
  have a: "clientConnected s \<or> qrGenerated s \<longrightarrow> on_event enc s (Qr q) = (s, [])"
    by simp
  have b: "\<not> clientConnected s \<and> \<not> qrGenerated s \<longrightarrow>
         fst (on_event enc s (Qr q)) = s\<lparr>qrGenerated := True\<rparr>
         \<and> filter is_broadcast (snd (on_event enc s (Qr q))) =
             (case enc q of None \<Rightarrow> [] | Some url \<Rightarrow> [IoEmit ''qr'' (Some url)])"
    by (simp split: option.split)
  have c: "is_reset ev \<longrightarrow>
         fst (on_event enc s ev) = s\<lparr>clientConnected := False, qrGenerated := False\<rparr>"
    by (cases ev) simp_all
  have d: "(\<forall>e \<in> set evs. \<not> is_reset e) \<longrightarrow>
         length (filter is_qr_broadcast (snd (run_events enc s evs))) \<le> 1"
    using run_events_at_most_one by blast
  from a b c d show ?thesis by blast
qed

text \<open>
  C5 as stated fails where \<open>toDataURL\<close> hands an error to its callback (as it does
  for an empty text): the offer is taken, \<open>qrGenerated\<close> is set, and nothing is
  broadcast.
\<close>
theorem qr_offer_failed_encoding_counterexample:
  "\<not> clientConnected initial_state \<and> \<not> qrGenerated initial_state
   \<and> on_event sample_toDataURL initial_state (Qr []) =
       (initial_state\<lparr>qrGenerated := True\<rparr>, [ConsoleLog LogScanQr])
   \<and> filter is_broadcast (snd (on_event sample_toDataURL initial_state (Qr []))) = []"
  by (simp add: initial_state_def sample_toDataURL_def)

theorem qr_offer_guard_witness:
  "on_event sample_toDataURL (initial_state\<lparr>qrGenerated := True\<rparr>) (Qr ''2@abc'') =
     (initial_state\<lparr>qrGenerated := True\<rparr>, [])
   \<and> fst (on_event sample_toDataURL initial_state (Qr ''2@abc'')) =
       initial_state\<lparr>qrGenerated := True\<rparr>
   \<and> filter is_broadcast (snd (on_event sample_toDataURL initial_state (Qr ''2@abc''))) =
       [IoEmit ''qr'' (Some ''data:image/png;base64,2@abc'')]
   \<and> fst (on_event sample_toDataURL (initial_state\<lparr>qrGenerated := True\<rparr>) (Disconnected ''LOGOUT'')) =
       initial_state
   \<and> length (filter is_qr_broadcast
        (snd (run_events sample_toDataURL initial_state [Qr ''2@abc'', Qr ''2@def'', Ready, Qr ''2@ghi'']))) \<le> 1"
proof -
  let ?evs = "[Qr ''2@abc'', Qr ''2@def'', Ready, Qr ''2@ghi'']"
  note issued = qr_offer_guard_and_resets
    [of "initial_state\<lparr>qrGenerated := True\<rparr>" sample_toDataURL "''2@abc''" "Disconnected ''LOGOUT''" ?evs]
  note fresh = qr_offer_guard_and_resets
    [of initial_state sample_toDataURL "''2@abc''" "Disconnected ''LOGOUT''" ?evs]
  have a: "on_event sample_toDataURL (initial_state\<lparr>qrGenerated := True\<rparr>) (Qr ''2@abc'') =
     (initial_state\<lparr>qrGenerated := True\<rparr>, [])"
    using issued by simp
  have b: "fst (on_event sample_toDataURL initial_state (Qr ''2@abc'')) =
       initial_state\<lparr>qrGenerated := True\<rparr>
     \<and> filter is_broadcast (snd (on_event sample_toDataURL initial_state (Qr ''2@abc''))) =
       [IoEmit ''qr'' (Some ''data:image/png;base64,2@abc'')]"
    using fresh by (simp add: initial_state_def sample_toDataURL_def)
  have c: "fst (on_event sample_toDataURL (initial_state\<lparr>qrGenerated := True\<rparr>) (Disconnected ''LOGOUT'')) =
       initial_state"
    using issued by (simp add: initial_state_def)
  have d: "length (filter is_qr_broadcast
        (snd (run_events sample_toDataURL initial_state ?evs))) \<le> 1"
    using fresh by simp
  from a b c d show ?thesis by blast
qed

text \<open>
  C6. The handler of \<open>disconnected\<close> clears the flags and registers the restart, but
  emits nothing to the subscribers, whereas the handlers of \<open>ready\<close>,
  \<open>auth_failure\<close> and \<open>error\<close> each broadcast their notification.
\<close>
theorem disconnected_handler_broadcasts_nothing:
  "on_event sample_toDataURL (initial_state\<lparr>clientConnected := True\<rparr>) (Disconnected ''NAVIGATION'') =
     (initial_state,
      [ConsoleLog (LogDisconnected ''NAVIGATION''), SetTimeout RestartClient 5000])
   \<and> filter is_broadcast
        (snd (on_event sample_toDataURL (initial_state\<lparr>clientConnected := True\<rparr>)
               (Disconnected ''NAVIGATION''))) = []
   \<and> filter is_broadcast (snd (on_event sample_toDataURL initial_state Ready)) =
       [IoEmit ''ready'' None]
   \<and> filter is_broadcast
        (snd (on_event sample_toDataURL (initial_state\<lparr>clientConnected := True\<rparr>) AuthFailure)) =
       [IoEmit ''auth_failure'' None]
   \<and> filter is_broadcast
        (snd (on_event sample_toDataURL (initial_state\<lparr>clientConnected := True\<rparr>) ClientError)) =
       [IoEmit ''error'' (Some ''WhatsApp client encountered an issue.'')]"
  by (simp add: initial_state_def setTimeout_def timer_delay_def)

section \<open>Properties of POST /send-group\<close>

text \<open>
  C7. For a POST /send-group request that passes the presence check, with the chat
  list fetched: when no chat is a group whose lower-cased name equals the lower-cased
  \<open>groupName\<close>, the handler answers 404 and does nothing else, so no send is
  attempted. When there is such a chat, the handler itself sends the message to one of
  them (the first), before it responds and without any timer, and the response follows
  the outcome of that send: 200 when it succeeded, 500 with the message of the
  error when it failed.
\<close>
theorem post_send_group_not_found_or_true_outcome:
  assumes "groupName req = Some g" and "g \<noteq> []" and "message req = Some msg" and "msg \<noteq> []"
    and "getChats c = Inr chats"
  shows "((\<forall>ch \<in> set chats. \<not> (isGroup ch \<and> lower (chat_name ch) = lower g)) \<longrightarrow>
            post_send_group lower c req =
              [Respond 404 (Error (''Group '' @ [CHR 0x27] @ g @ [CHR 0x27] @ '' not found''))])
         \<and> ((\<exists>ch \<in> set chats. isGroup ch \<and> lower (chat_name ch) = lower g) \<longrightarrow>
              (\<exists>grp \<in> set chats. isGroup grp \<and> lower (chat_name grp) = lower g
                 \<and> post_send_group lower c req =
                     SendMessage (id_serialized grp) (Text msg) #
                     (case sendMessage c (id_serialized grp) (Text msg) of
                        Inr u \<Rightarrow> [Respond 200 (Success (''Message sent to '' @ g))]
                      | Inl err \<Rightarrow> [ConsoleLog (LogGroupError err), Respond 500 (Error err)])))
         \<and> scheduled (post_send_group lower c req) = []"
proof -
  let ?P = "\<lambda>ch. isGroup ch \<and> lower (chat_name ch) = lower g"
  have eff: "post_send_group lower c req =
      (case find ?P chats of
         None \<Rightarrow> [Respond 404 (Error (''Group '' @ [CHR 0x27] @ g @ [CHR 0x27] @ '' not found''))]
       | Some found \<Rightarrow>
           SendMessage (id_serialized found) (Text msg) #
           (case sendMessage c (id_serialized found) (Text msg) of
              Inr u \<Rightarrow> [Respond 200 (Success (''Message sent to '' @ g))]
            | Inl err \<Rightarrow> [ConsoleLog (LogGroupError err), Respond 500 (Error err)]))"
    using assms by (simp add: post_send_group_def truthy_string_def Let_def)
  have none: "(\<forall>ch \<in> set chats. \<not> ?P ch) \<longrightarrow>
      post_send_group lower c req =
        [Respond 404 (Error (''Group '' @ [CHR 0x27] @ g @ [CHR 0x27] @ '' not found''))]"
  proof
    assume "\<forall>ch \<in> set chats. \<not> ?P ch"
    then have "find ?P chats = None" by (simp add: find_None_iff)
    then show "post_send_group lower c req =
        [Respond 404 (Error (''Group '' @ [CHR 0x27] @ g @ [CHR 0x27] @ '' not found''))]"
      unfolding eff by simp
  qed
  have some: "(\<exists>ch \<in> set chats. ?P ch) \<longrightarrow>
      (\<exists>grp \<in> set chats. ?P grp
         \<and> post_send_group lower c req =
             SendMessage (id_serialized grp) (Text msg) #
             (case sendMessage c (id_serialized grp) (Text msg) of
                Inr u \<Rightarrow> [Respond 200 (Success (''Message sent to '' @ g))]
              | Inl err \<Rightarrow> [ConsoleLog (LogGroupError err), Respond 500 (Error err)]))"
  proof
    assume "\<exists>ch \<in> set chats. ?P ch"
    then have "find ?P chats \<noteq> None" by (auto simp: find_None_iff)
    then obtain grp where grp: "find ?P chats = Some grp" by blast
    then have "grp \<in> set chats" and "?P grp"
      by (auto simp: find_Some_iff)
    moreover have "post_send_group lower c req =
             SendMessage (id_serialized grp) (Text msg) #
             (case sendMessage c (id_serialized grp) (Text msg) of
                Inr u \<Rightarrow> [Respond 200 (Success (''Message sent to '' @ g))]
              | Inl err \<Rightarrow> [ConsoleLog (LogGroupError err), Respond 500 (Error err)])"
      unfolding eff grp by simp
    ultimately show "\<exists>grp \<in> set chats. ?P grp
         \<and> post_send_group lower c req =
             SendMessage (id_serialized grp) (Text msg) #
             (case sendMessage c (id_serialized grp) (Text msg) of
                Inr u \<Rightarrow> [Respond 200 (Success (''Message sent to '' @ g))]
              | Inl err \<Rightarrow> [ConsoleLog (LogGroupError err), Respond 500 (Error err)])"
      by blast
  qed
  have notimer: "scheduled (post_send_group lower c req) = []"
    unfolding eff
    by (simp add: scheduled_def map_filter_def split: option.split sum.split)
  from none some notimer show ?thesis by blast
qed

theorem post_send_group_witness:
  "post_send_group sample_toLowerCase group_client
      (no_fields\<lparr>groupName := Some ''FAMILY'', message := Some ''hi''\<rparr>) =
     [SendMessage ''120363041@g.us'' (Text ''hi''),
      Respond 200 (Success ''Message sent to FAMILY'')]
   \<and> post_send_group sample_toLowerCase group_client
      (no_fields\<lparr>groupName := Some ''Work'', message := Some ''hi''\<rparr>) =
     [Respond 404 (Error (''Group '' @ [CHR 0x27] @ ''Work'' @ [CHR 0x27] @ '' not found''))]"
proof -
  let ?chats = "[\<lparr>isGroup = False, chat_name = ''Family'', id_serialized = ''15551234567@c.us''\<rparr>,
                 \<lparr>isGroup = True, chat_name = ''Family'', id_serialized = ''120363041@g.us''\<rparr>]"
  let ?family = "no_fields\<lparr>groupName := Some ''FAMILY'', message := Some ''hi''\<rparr>"
  let ?work = "no_fields\<lparr>groupName := Some ''Work'', message := Some ''hi''\<rparr>"
  have chats: "getChats group_client = Inr ?chats"
    by (simp add: group_client_def quiet_client_def)
  have ne: "''hi'' \<noteq> []" "''FAMILY'' \<noteq> []" "''Work'' \<noteq> []" by simp_all
  have gf: "groupName ?family = Some ''FAMILY''" and mf: "message ?family = Some ''hi''"
    by simp_all
  have gw: "groupName ?work = Some ''Work''" and mw: "message ?work = Some ''hi''"
    by simp_all
  have low: "sample_toLowerCase ''Family'' = ''family''"
    "sample_toLowerCase ''FAMILY'' = ''family''" "sample_toLowerCase ''Work'' = ''work''"
    by (simp_all add: sample_toLowerCase_def)
  have sent: "sendMessage group_client ''120363041@g.us'' (Text ''hi'') = Inr ()"
    by (simp add: group_client_def)
  note match = post_send_group_not_found_or_true_outcome
    [OF gf ne(2) mf ne(1) chats, of sample_toLowerCase]
  note nomatch = post_send_group_not_found_or_true_outcome
    [OF gw ne(3) mw ne(1) chats, of sample_toLowerCase]
  have a: "post_send_group sample_toLowerCase group_client ?family =
     [SendMessage ''120363041@g.us'' (Text ''hi''),
      Respond 200 (Success ''Message sent to FAMILY'')]"
    using match by (simp add: low sent)
  have b: "post_send_group sample_toLowerCase group_client ?work =
     [Respond 404 (Error (''Group '' @ [CHR 0x27] @ ''Work'' @ [CHR 0x27] @ '' not found''))]"
    using nomatch by (simp add: low)
  from a b show ?thesis by blast
qed

section \<open>Properties of getContacts\<close>

lemma slice_window:
  assumes "0 \<le> a" and "0 \<le> n"
  shows "slice xs a (a + n) = take (nat n) (drop (nat a) xs)"
proof (cases "a < int (length xs)")
  case True
  have len: "length (drop (nat a) xs) = length xs - nat a" by simp
  have "nat (min (a + n) (int (length xs)) - a) = min (nat n) (length xs - nat a)"
    using True assms by (simp add: min_def) linarith
  then have "take (nat (min (a + n) (int (length xs)) - a)) (drop (nat a) xs)
      = take (nat n) (drop (nat a) xs)"
    by (simp add: min_def)
  with True assms show ?thesis
    by (simp add: slice_def Let_def min_def)
next
  case False
  then have "drop (nat a) xs = []" using assms by simp
  moreover have "drop (nat (min a (int (length xs)))) xs = []"
    using False assms by (simp add: min_def)
  ultimately show ?thesis using assms
    by (simp add: slice_def Let_def)
qed

lemma slice_page:
  assumes "1 \<le> page" and "1 \<le> pageSize"
  shows "slice xs ((page - 1) * pageSize) (page * pageSize) =
           take (nat pageSize) (drop (nat ((page - 1) * pageSize)) xs)"
proof -
  have "page * pageSize = (page - 1) * pageSize + pageSize" by (simp add: algebra_simps)
  moreover have "0 \<le> (page - 1) * pageSize" and "0 \<le> pageSize" using assms by simp_all
  ultimately show ?thesis by (simp add: slice_window)
qed

lemma take_drop_positions:
  "take n (drop a xs) = map (\<lambda>i. xs ! i) [a..<min (a + n) (length xs)]"
  by (rule nth_equalityI) auto

lemma summarize_empty_name:
  "contact_name k = Some [] \<Longrightarrow> name (summarize k) = ''Unknown''"
  by (simp add: summarize_def truthy_string_def)

text \<open>
  C8. For \<open>page\<close> and \<open>pageSize\<close> at least 1 and a contact list that was fetched,
  the reply \<open>contactsList\<close> carries exactly the entries at the positions
  \<open>(page - 1) * pageSize\<close> up to \<open>page * pageSize - 1\<close> (as far as they exist) of
  the contacts with \<open>isUser\<close>, in their order, each as its name and number; a
  contact without a name gets the name \<open>Unknown\<close>, a contact with a non-empty name
  keeps it; and a page that starts past the end gives the empty list, not an error.

  An empty name is falsy as well and also becomes \<open>Unknown\<close>
  (\<open>summarize_empty_name\<close>).
\<close>
theorem getContacts_page_of_user_contacts:
  assumes "1 \<le> page" and "1 \<le> pageSize" and "getContacts c = Inr contacts"
  shows "on_getContacts c page pageSize =
           [SocketEmitContacts
              (map (\<lambda>i. summarize (filter isUser contacts ! i))
                 [nat ((page - 1) * pageSize)
                  ..< min (nat (page * pageSize)) (length (filter isUser contacts))])]
         \<and> (contact_name k = None \<longrightarrow>
               summarize k = \<lparr>name = ''Unknown'', summary_number = contact_number k\<rparr>)
         \<and> (contact_name k = Some n \<and> n \<noteq> [] \<longrightarrow>
               summarize k = \<lparr>name = n, summary_number = contact_number k\<rparr>)
         \<and> (int (length (filter isUser contacts)) \<le> (page - 1) * pageSize \<longrightarrow>
               on_getContacts c page pageSize = [SocketEmitContacts []])"
proof -
  let ?users = "filter isUser contacts"
  let ?a = "nat ((page - 1) * pageSize)"
  have a0: "0 \<le> (page - 1) * pageSize" using assms by simp
  have "page * pageSize = (page - 1) * pageSize + pageSize" by (simp add: algebra_simps)
  then have b: "nat (page * pageSize) = ?a + nat pageSize"
    using a0 assms(2) by (simp add: nat_add_distrib)
  have eff: "on_getContacts c page pageSize =
      [SocketEmitContacts (map summarize (take (nat pageSize) (drop ?a ?users)))]"
    using assms by (simp add: on_getContacts_def slice_page)
  have "map summarize (take (nat pageSize) (drop ?a ?users)) =
      map (\<lambda>i. summarize (?users ! i)) [?a ..< min (nat (page * pageSize)) (length ?users)]"
    unfolding take_drop_positions b by (simp add: o_def)
  with eff have page: "on_getContacts c page pageSize =
      [SocketEmitContacts
         (map (\<lambda>i. summarize (?users ! i)) [?a ..< min (nat (page * pageSize)) (length ?users)])]"
    by simp
  have absent: "contact_name k = None \<longrightarrow>
      summarize k = \<lparr>name = ''Unknown'', summary_number = contact_number k\<rparr>"
    by (simp add: summarize_def truthy_string_def)
  have named: "contact_name k = Some n \<and> n \<noteq> [] \<longrightarrow>
      summarize k = \<lparr>name = n, summary_number = contact_number k\<rparr>"
    by (simp add: summarize_def truthy_string_def)
  have past: "int (length ?users) \<le> (page - 1) * pageSize \<longrightarrow>
      on_getContacts c page pageSize = [SocketEmitContacts []]"
    unfolding eff using a0 by simp
  from page absent named past show ?thesis by blast
qed

theorem getContacts_page_witness:
  "on_getContacts (quiet_client\<lparr>getContacts := Inr sample_contacts\<rparr>) 2 2 =
     [SocketEmitContacts [\<lparr>name = ''Unknown'', summary_number = ''15550003''\<rparr>,
                          \<lparr>name = ''Dan'', summary_number = ''15550004''\<rparr>]]
   \<and> on_getContacts (quiet_client\<lparr>getContacts := Inr sample_contacts\<rparr>) 4 2 =
     [SocketEmitContacts []]"
proof -
  let ?c = "quiet_client\<lparr>getContacts := Inr sample_contacts\<rparr>"
  let ?anon = "\<lparr>isUser = True, contact_name = None, contact_number = ''15550003''\<rparr>"
  let ?dan = "\<lparr>isUser = True, contact_name = Some ''Dan'', contact_number = ''15550004''\<rparr>"
  have p: "(1::int) \<le> 2" "(1::int) \<le> 4" by simp_all
  have g: "getContacts ?c = Inr sample_contacts" by simp
  have users: "filter isUser sample_contacts =
      [\<lparr>isUser = True, contact_name = Some ''Ann'', contact_number = ''15550001''\<rparr>,
       \<lparr>isUser = True, contact_name = Some ''Bob'', contact_number = ''15550002''\<rparr>,
       ?anon, ?dan,
       \<lparr>isUser = True, contact_name = Some ''Eve'', contact_number = ''15550005''\<rparr>]"
    by (simp add: sample_contacts_def)
  have range: "[nat ((2 - 1) * 2) ..< min (nat (2 * 2)) 5] = [2, 3]"
    by (simp add: upt_rec)
  note second = getContacts_page_of_user_contacts [OF p(1) p(1) g, of ?anon "''Dan''"]
  note named = getContacts_page_of_user_contacts [OF p(1) p(1) g, of ?dan "''Dan''"]
  note fourth = getContacts_page_of_user_contacts [OF p(2) p(1) g, of ?anon "''Dan''"]
  have s1: "summarize ?anon = \<lparr>name = ''Unknown'', summary_number = ''15550003''\<rparr>"
    using second by simp
  have s2: "summarize ?dan = \<lparr>name = ''Dan'', summary_number = ''15550004''\<rparr>"
    using named by simp
  have a: "on_getContacts ?c 2 2 =
     [SocketEmitContacts [\<lparr>name = ''Unknown'', summary_number = ''15550003''\<rparr>,
                          \<lparr>name = ''Dan'', summary_number = ''15550004''\<rparr>]]"
    using second unfolding users by (simp add: range s1 s2)
  have b: "on_getContacts ?c 4 2 = [SocketEmitContacts []]"
    using fourth unfolding users by simp
  from a b show ?thesis by blast
qed

section \<open>Properties of POST /send-media\<close>




end
